theory Spec2Isabelle
  imports Complex_Main
begin

section \<open>Strings\<close>

text \<open>
  A JavaScript string is modelled as a \<^typ>\<open>string\<close>: one \<^typ>\<open>char\<close> per code unit, so
  the model covers texts whose code units are below 256. The white space that
  \<^verbatim>\<open>String.prototype.trim\<close> removes is, in that range, TAB, LF, VT, FF, CR, SPACE and
  NBSP.
\<close>

definition is_ws :: "char \<Rightarrow> bool" where
  "is_ws c = (c \<in> set [CHR 0x09, CHR 0x0A, CHR 0x0B, CHR 0x0C, CHR 0x0D, CHR '' '', CHR 0xA0])"

definition trim_start :: "string \<Rightarrow> string" where
  "trim_start s = dropWhile is_ws s"

definition trim :: "string \<Rightarrow> string" where
  "trim s = rev (dropWhile is_ws (rev (dropWhile is_ws s)))"

text \<open>\<^verbatim>\<open>s.split(d)\<close> for a one-character separator: never empty, \<^verbatim>\<open>"".split(d)\<close> is \<^verbatim>\<open>[""]\<close>.\<close>

fun split_on :: "char \<Rightarrow> string \<Rightarrow> string list" where
  "split_on d [] = [[]]"
| "split_on d (c # cs) =
     (if c = d then [] # split_on d cs
      else (case split_on d cs of
              p # ps \<Rightarrow> (c # p) # ps
            | [] \<Rightarrow> [[c]]))"

text \<open>\<^verbatim>\<open>xs[i]\<close>: \<^verbatim>\<open>undefined\<close> (here \<open>None\<close>) out of range.\<close>

definition nth_opt :: "'a list \<Rightarrow> nat \<Rightarrow> 'a option" where
  "nth_opt xs i = (if i < length xs then Some (xs ! i) else None)"

text \<open>Truthiness of a value that is a string or \<^verbatim>\<open>undefined\<close>.\<close>

definition truthy :: "string option \<Rightarrow> bool" where
  "truthy v = (case v of None \<Rightarrow> False | Some s \<Rightarrow> s \<noteq> [])"

section \<open>Numbers\<close>

text \<open>
  A JavaScript number is NaN, one of the two infinities, or finite. Finite values are
  exact rationals here: the rounding of IEEE doubles, their overflow to an infinity and
  the sign of zero are not modelled. The rules for NaN and the infinities are those of
  IEEE 754.
\<close>

datatype jsnum = NaN | PInf | NInf | Fin rat

fun js_add :: "jsnum \<Rightarrow> jsnum \<Rightarrow> jsnum" where
  "js_add NaN _ = NaN"
| "js_add _ NaN = NaN"
| "js_add PInf NInf = NaN"
| "js_add NInf PInf = NaN"
| "js_add PInf _ = PInf"
| "js_add _ PInf = PInf"
| "js_add NInf _ = NInf"
| "js_add _ NInf = NInf"
| "js_add (Fin a) (Fin b) = Fin (a + b)"

fun js_neg :: "jsnum \<Rightarrow> jsnum" where
  "js_neg NaN = NaN"
| "js_neg PInf = NInf"
| "js_neg NInf = PInf"
| "js_neg (Fin a) = Fin (- a)"

definition js_sub :: "jsnum \<Rightarrow> jsnum \<Rightarrow> jsnum" where
  "js_sub a b = js_add a (js_neg b)"

fun js_mul :: "jsnum \<Rightarrow> jsnum \<Rightarrow> jsnum" where
  "js_mul NaN _ = NaN"
| "js_mul _ NaN = NaN"
| "js_mul (Fin a) (Fin b) = Fin (a * b)"
| "js_mul (Fin a) PInf = (if a = 0 then NaN else if 0 < a then PInf else NInf)"
| "js_mul (Fin a) NInf = (if a = 0 then NaN else if 0 < a then NInf else PInf)"
| "js_mul PInf (Fin b) = (if b = 0 then NaN else if 0 < b then PInf else NInf)"
| "js_mul NInf (Fin b) = (if b = 0 then NaN else if 0 < b then NInf else PInf)"
| "js_mul PInf PInf = PInf"
| "js_mul NInf NInf = PInf"
| "js_mul PInf NInf = NInf"
| "js_mul NInf PInf = NInf"

fun js_div :: "jsnum \<Rightarrow> jsnum \<Rightarrow> jsnum" where
  "js_div NaN _ = NaN"
| "js_div _ NaN = NaN"
| "js_div (Fin a) (Fin b) =
     (if b = 0 then (if a = 0 then NaN else if 0 < a then PInf else NInf)
      else Fin (a / b))"
| "js_div (Fin a) PInf = Fin 0"
| "js_div (Fin a) NInf = Fin 0"
| "js_div PInf (Fin b) = (if b < 0 then NInf else PInf)"
| "js_div NInf (Fin b) = (if b < 0 then PInf else NInf)"
| "js_div PInf PInf = NaN"
| "js_div PInf NInf = NaN"
| "js_div NInf PInf = NaN"
| "js_div NInf NInf = NaN"

text \<open>\<^verbatim>\<open>x || 0\<close> on a number: NaN and zero are falsy.\<close>

definition or_zero :: "jsnum \<Rightarrow> jsnum" where
  "or_zero x = (if x = NaN \<or> x = Fin 0 then Fin 0 else x)"

text \<open>An array length as a number.\<close>

definition num :: "nat \<Rightarrow> jsnum" where
  "num n = Fin (of_nat n)"

subsection \<open>Numeric literals in strings\<close>

definition digit_val :: "char \<Rightarrow> nat option" where
  "digit_val c = map_of
     [(CHR ''0'', 0), (CHR ''1'', 1), (CHR ''2'', 2), (CHR ''3'', 3), (CHR ''4'', 4),
      (CHR ''5'', 5), (CHR ''6'', 6), (CHR ''7'', 7), (CHR ''8'', 8), (CHR ''9'', 9),
      (CHR ''a'', 10), (CHR ''b'', 11), (CHR ''c'', 12), (CHR ''d'', 13), (CHR ''e'', 14),
      (CHR ''f'', 15), (CHR ''A'', 10), (CHR ''B'', 11), (CHR ''C'', 12), (CHR ''D'', 13),
      (CHR ''E'', 14), (CHR ''F'', 15)] c"

definition is_digit :: "nat \<Rightarrow> char \<Rightarrow> bool" where
  "is_digit radix c = (case digit_val c of None \<Rightarrow> False | Some d \<Rightarrow> d < radix)"

definition digits_value :: "nat \<Rightarrow> string \<Rightarrow> nat" where
  "digits_value radix ds =
     foldl (\<lambda>n c. radix * n + (case digit_val c of None \<Rightarrow> 0 | Some d \<Rightarrow> d)) 0 ds"

text \<open>An optional sign: whether it is a minus, and the rest.\<close>

definition take_sign :: "string \<Rightarrow> bool \<times> string" where
  "take_sign s =
     (case s of
        [] \<Rightarrow> (False, s)
      | c # cs \<Rightarrow> if c = CHR ''-'' then (True, cs) else if c = CHR ''+'' then (False, cs)
                  else (False, s))"

text \<open>
  An exponent part \<^verbatim>\<open>e\<close> or \<^verbatim>\<open>E\<close>, an optional sign and at least one digit: the
  exponent and the rest, or \<open>None\<close> when the string does not start with one.
\<close>

definition take_exponent :: "string \<Rightarrow> (int \<times> string) option" where
  "take_exponent s =
     (case s of
        [] \<Rightarrow> None
      | c # cs \<Rightarrow>
          if c = CHR ''e'' \<or> c = CHR ''E'' then
            (let (neg, r) = take_sign cs; ds = takeWhile (is_digit 10) r in
             if ds = [] then None
             else Some ((if neg then - int (digits_value 10 ds) else int (digits_value 10 ds)),
                        dropWhile (is_digit 10) r))
          else None)"

definition scale10 :: "rat \<Rightarrow> int \<Rightarrow> rat" where
  "scale10 m e = (if e < 0 then m / 10 ^ nat (- e) else m * 10 ^ nat e)"

text \<open>
  The longest prefix that is a \<^verbatim>\<open>StrDecimalLiteral\<close> of ECMAScript (sign, then
  \<^verbatim>\<open>Infinity\<close> or digits with an optional fraction and exponent): its value and the
  rest of the string, or \<open>None\<close> when no prefix is one.
\<close>

definition str_decimal_literal :: "string \<Rightarrow> (jsnum \<times> string) option" where
  "str_decimal_literal s =
     (let (neg, s1) = take_sign s in
      if take 8 s1 = ''Infinity'' then Some ((if neg then NInf else PInf), drop 8 s1)
      else
        let ip = takeWhile (is_digit 10) s1;
            r1 = dropWhile (is_digit 10) s1;
            (fp, r2) = (case r1 of
                          [] \<Rightarrow> ([], r1)
                        | c # cs \<Rightarrow> if c = CHR ''.''
                                    then (takeWhile (is_digit 10) cs, dropWhile (is_digit 10) cs)
                                    else ([], r1))
        in if ip = [] \<and> fp = [] then None
           else
             let m = rat_of_nat (digits_value 10 ip)
                       + rat_of_nat (digits_value 10 fp) / 10 ^ length fp;
                 (e, r3) = (case take_exponent r2 of None \<Rightarrow> (0, r2) | Some (e, r) \<Rightarrow> (e, r));
                 v = scale10 m e
             in Some (Fin (if neg then - v else v), r3))"

text \<open>\<^verbatim>\<open>parseFloat(x)\<close>; \<^verbatim>\<open>undefined\<close> is read as the string "undefined", which gives NaN.\<close>

definition parseFloat :: "string option \<Rightarrow> jsnum" where
  "parseFloat x =
     (case x of
        None \<Rightarrow> NaN
      | Some s \<Rightarrow> (case str_decimal_literal (trim_start s) of
                     None \<Rightarrow> NaN
                   | Some (v, _) \<Rightarrow> v))"

text \<open>
  \<^verbatim>\<open>parseInt(x)\<close> with no radix: \<open>None\<close> is NaN. A prefix \<^verbatim>\<open>0x\<close> selects radix 16.
\<close>

definition parseInt :: "string option \<Rightarrow> int option" where
  "parseInt x =
     (case x of
        None \<Rightarrow> None
      | Some s \<Rightarrow>
          (let (neg, s1) = take_sign (trim_start s);
               (radix, s2) = (if take 2 s1 = ''0x'' \<or> take 2 s1 = ''0X'' then (16, drop 2 s1)
                              else (10, s1));
               ds = takeWhile (is_digit radix) s2
           in if ds = [] then None
              else Some (if neg then - int (digits_value radix ds)
                         else int (digits_value radix ds))))"

text \<open>
  The conversion of a string to a number (\<^verbatim>\<open>StringToNumber\<close>), which the subtraction
  of two strings applies: the whole trimmed string must be a literal, the empty string
  is 0, and \<^verbatim>\<open>0x\<close>, \<^verbatim>\<open>0o\<close>, \<^verbatim>\<open>0b\<close> introduce unsigned integers in radix 16, 8, 2.
\<close>

definition radix_of_prefix :: "string \<Rightarrow> nat option" where
  "radix_of_prefix p =
     (if p = ''0x'' \<or> p = ''0X'' then Some 16
      else if p = ''0o'' \<or> p = ''0O'' then Some 8
      else if p = ''0b'' \<or> p = ''0B'' then Some 2
      else None)"

definition toNumber :: "string \<Rightarrow> jsnum" where
  "toNumber s =
     (let t = trim s in
      if t = [] then Fin 0
      else (case radix_of_prefix (take 2 t) of
              Some radix \<Rightarrow>
                (let ds = drop 2 t in
                 if ds \<noteq> [] \<and> list_all (is_digit radix) ds
                 then Fin (rat_of_nat (digits_value radix ds)) else NaN)
            | None \<Rightarrow>
                (case str_decimal_literal t of
                   None \<Rightarrow> NaN
                 | Some (v, r) \<Rightarrow> if r = [] then v else NaN)))"

section \<open>The tabular loader\<close>

text \<open>
  A raw record is the object built per row: a dictionary from column name to value.
  Objects used as dictionaries are modelled as maps, a key being any string; the
  special meaning of the key \<^verbatim>\<open>__proto__\<close> is not modelled.
\<close>

type_synonym row = "string \<Rightarrow> string option"

datatype diagnostic =
    MalformedRow nat string
  | NoPlaysFound "string option"
  | MissingFields "string option"

text \<open>
  The body of \<^verbatim>\<open>headers.forEach\<close>: \<^verbatim>\<open>row[header.trim()] = values[index] ?
  values[index].trim() : ''\<close>.
\<close>

definition set_column :: "string list \<Rightarrow> row \<Rightarrow> string \<times> nat \<Rightarrow> row" where
  "set_column values r hi =
     (case hi of (header, index) \<Rightarrow>
        r(trim header \<mapsto> (if truthy (nth_opt values index)
                            then trim (values ! index) else [])))"

definition make_row :: "string list \<Rightarrow> string list \<Rightarrow> row" where
  "make_row headers values =
     foldl (set_column values) Map.empty (zip headers [0..<length headers])"

text \<open>
  The loop of \<^verbatim>\<open>parseCSV\<close> from index \<open>i\<close> on, over the lines that remain, with the
  records pushed and the warnings printed so far.
\<close>

fun parse_loop ::
  "string list \<Rightarrow> nat \<Rightarrow> string list \<Rightarrow> row list \<Rightarrow> diagnostic list
     \<Rightarrow> row list \<times> diagnostic list" where
  "parse_loop headers i [] data warns = (data, warns)"
| "parse_loop headers i (l # ls) data warns =
     (if trim l \<noteq> [] then
        (let values = split_on CHR '','' l in
         if length values \<noteq> length headers
         then parse_loop headers (i + 1) ls data (warns @ [MalformedRow (i + 1) l])
         else parse_loop headers (i + 1) ls (data @ [make_row headers values]) warns)
      else parse_loop headers (i + 1) ls data warns)"

definition parseCSV :: "string \<Rightarrow> row list \<times> diagnostic list" where
  "parseCSV csvContent =
     (case split_on CHR 0x0A csvContent of
        [] \<Rightarrow> ([], [])
      | line0 # rest \<Rightarrow> parse_loop (split_on CHR '','' line0) 1 rest [] [])"

section \<open>The aggregation engine\<close>

subsection \<open>Arrays, sets and sorting\<close>

text \<open>\<^verbatim>\<open>[...new Set(xs)]\<close>: the distinct values in the order of their first occurrence.\<close>

definition set_spread :: "'a list \<Rightarrow> 'a list" where
  "set_spread xs = foldl (\<lambda>seen x. if x \<in> set seen then seen else seen @ [x]) [] xs"

text \<open>The defined values of an array, and \<^verbatim>\<open>.filter(v => v)\<close> on strings-or-undefined.\<close>

fun somes :: "'a option list \<Rightarrow> 'a list" where
  "somes [] = []"
| "somes (None # xs) = somes xs"
| "somes (Some x # xs) = x # somes xs"

definition filter_truthy :: "string option list \<Rightarrow> string list" where
  "filter_truthy xs = filter (\<lambda>s. s \<noteq> []) (somes xs)"

text \<open>
  \<^verbatim>\<open>Array.prototype.sort(cmp)\<close> is stable; it takes a NaN returned by the comparator
  as 0, moves \<^verbatim>\<open>undefined\<close> to the end without calling the comparator, and leaves
  the order to the implementation when the comparator is not consistent. The model
  is the stable insertion sort, which fixes one such order.
\<close>

definition is_positive :: "jsnum \<Rightarrow> bool" where
  "is_positive v = (case v of PInf \<Rightarrow> True | Fin r \<Rightarrow> 0 < r | _ \<Rightarrow> False)"

fun insert_by :: "('a \<Rightarrow> 'a \<Rightarrow> jsnum) \<Rightarrow> 'a \<Rightarrow> 'a list \<Rightarrow> 'a list" where
  "insert_by cmp x [] = [x]"
| "insert_by cmp x (y # ys) =
     (if is_positive (cmp x y) then y # insert_by cmp x ys else x # y # ys)"

definition sort_by :: "('a \<Rightarrow> 'a \<Rightarrow> jsnum) \<Rightarrow> 'a list \<Rightarrow> 'a list" where
  "sort_by cmp xs = foldr (insert_by cmp) xs []"

definition array_sort :: "('a \<Rightarrow> 'a \<Rightarrow> jsnum) \<Rightarrow> 'a option list \<Rightarrow> 'a option list" where
  "array_sort cmp xs = map Some (sort_by cmp (somes xs)) @ filter (\<lambda>x. x = None) xs"

text \<open>The comparator \<^verbatim>\<open>(a, b) => a - b\<close> on strings.\<close>

definition compare_ids :: "string \<Rightarrow> string \<Rightarrow> jsnum" where
  "compare_ids a b = js_sub (toNumber a) (toNumber b)"

subsection \<open>Games and plays\<close>

datatype distance = Null | DistanceNaN | Distance int

record play =
  minute :: int
  playType :: "string option"
  shotAttempt :: "string option"
  shotDistance :: distance
  shotOutcome :: "string option"
  xG :: jsnum
  playContext :: "string option"
  location :: "string option"
  outcome :: "string option"
  success :: bool
  winImpact :: int
  assistType :: "string option"
  phaseOfMatch :: "string option"

record game =
  gameId :: "string option"
  opponent :: string
  date :: string
  season :: string
  plays :: "play list"

text \<open>\<^verbatim>\<open>parseInt(x) || 0\<close>.\<close>

definition int_or_zero :: "int option \<Rightarrow> int" where
  "int_or_zero v = (case v of None \<Rightarrow> 0 | Some n \<Rightarrow> n)"

definition to_play :: "row \<Rightarrow> play" where
  "to_play r =
     \<lparr>minute = int_or_zero (parseInt (r ''Minute'')),
      playType = r ''Play Type'',
      shotAttempt = r ''Shot Attempt'',
      shotDistance = (if truthy (r ''Shot Distance'')
                      then (case parseInt (r ''Shot Distance'') of
                              None \<Rightarrow> DistanceNaN | Some n \<Rightarrow> Distance n)
                      else Null),
      shotOutcome = r ''Shot Outcome'',
      xG = or_zero (parseFloat (r ''xG'')),
      playContext = r ''Play Context'',
      location = r ''Location on Field'',
      outcome = r ''Outcome'',
      success = (r ''Success'' = Some ''Yes''),
      winImpact = int_or_zero (parseInt (r ''Win Impact'')),
      assistType = r ''Assist Type'',
      phaseOfMatch = r ''Phase of Match''\<rparr>"

definition game_ids :: "row list \<Rightarrow> string option list" where
  "game_ids data = array_sort compare_ids (set_spread (map (\<lambda>r. r ''Game ID'') data))"

definition opponent_names :: "row list \<Rightarrow> string list" where
  "opponent_names data = filter_truthy (set_spread (map (\<lambda>r. r ''Opponent'') data))"

text \<open>
  The callback of \<^verbatim>\<open>games.map\<close>: the game of one identifier, or the warning printed
  where the source returns \<^verbatim>\<open>null\<close>.
\<close>

definition materialize :: "row list \<Rightarrow> string option \<Rightarrow> diagnostic + game" where
  "materialize data gid =
     (let gamePlays = filter (\<lambda>r. r ''Game ID'' = gid) data in
      case gamePlays of
        [] \<Rightarrow> Inl (NoPlaysFound gid)
      | firstPlay # _ \<Rightarrow>
          if \<not> truthy (firstPlay ''Opponent'') \<or> \<not> truthy (firstPlay ''Date'')
             \<or> \<not> truthy (firstPlay ''Season'')
          then Inl (MissingFields gid)
          else (case (firstPlay ''Opponent'', firstPlay ''Date'', firstPlay ''Season'') of
                  (Some opp, Some d, Some s) \<Rightarrow>
                    Inr \<lparr>gameId = gid, opponent = opp, date = d, season = s,
                         plays = map to_play gamePlays\<rparr>
                | _ \<Rightarrow> Inl (MissingFields gid)))"

fun lefts :: "('a + 'b) list \<Rightarrow> 'a list" where
  "lefts [] = []"
| "lefts (Inl a # xs) = a # lefts xs"
| "lefts (Inr b # xs) = lefts xs"

fun rights :: "('a + 'b) list \<Rightarrow> 'b list" where
  "rights [] = []"
| "rights (Inl a # xs) = rights xs"
| "rights (Inr b # xs) = b # rights xs"

definition game_data :: "row list \<Rightarrow> game list" where
  "game_data data = rights (map (materialize data) (game_ids data))"

definition game_warnings :: "row list \<Rightarrow> diagnostic list" where
  "game_warnings data = lefts (map (materialize data) (game_ids data))"

subsection \<open>The five views\<close>

record goal_event =
  goal_minute :: int
  goal_gameId :: "string option"
  goal_opponent :: string
  goal_playType :: "string option"
  goal_playContext :: "string option"
  goal_location :: "string option"
  goal_xG :: jsnum
  goal_winImpact :: int

definition goals_of_game :: "game \<Rightarrow> goal_event list" where
  "goals_of_game g =
     map (\<lambda>goal. \<lparr>goal_minute = minute goal, goal_gameId = gameId g,
                   goal_opponent = opponent g, goal_playType = playType goal,
                   goal_playContext = playContext goal, goal_location = location goal,
                   goal_xG = xG goal, goal_winImpact = winImpact goal\<rparr>)
         (filter (\<lambda>p. shotOutcome p = Some ''Goal'') (plays g))"

definition goals_timeline :: "game list \<Rightarrow> goal_event list" where
  "goals_timeline gameData = concat (map goals_of_game gameData)"

text \<open>\<^verbatim>\<open>rows.reduce((sum, play) => sum + (parseFloat(play['xG']) || 0), 0)\<close>.\<close>

definition sum_xg_rows :: "row list \<Rightarrow> jsnum" where
  "sum_xg_rows rs = foldl (\<lambda>sum r. js_add sum (or_zero (parseFloat (r ''xG'')))) (Fin 0) rs"

text \<open>\<^verbatim>\<open>plays.reduce((sum, play) => sum + play.xG, 0)\<close>.\<close>

definition sum_xg_plays :: "play list \<Rightarrow> jsnum" where
  "sum_xg_plays ps = foldl (\<lambda>sum p. js_add sum (xG p)) (Fin 0) ps"

text \<open>\<^verbatim>\<open>d > 0 ? (n / d) * 100 : 0\<close> and \<^verbatim>\<open>d > 0 ? x / d : 0\<close> for lengths \<open>n\<close>, \<open>d\<close>.\<close>

definition percentage :: "nat \<Rightarrow> nat \<Rightarrow> jsnum" where
  "percentage n d = (if 0 < d then js_mul (js_div (num n) (num d)) (Fin 100) else Fin 0)"

definition per_shot :: "jsnum \<Rightarrow> nat \<Rightarrow> jsnum" where
  "per_shot x d = (if 0 < d then js_div x (num d) else Fin 0)"

record shot_entry =
  totalShots :: nat
  goals :: nat
  avgXG :: jsnum
  successRate :: jsnum

definition location_plays :: "row list \<Rightarrow> string \<Rightarrow> row list" where
  "location_plays data loc =
     filter (\<lambda>r. r ''Location on Field'' = Some loc \<and> r ''Shot Attempt'' = Some ''Yes'') data"

definition shot_entry_of :: "row list \<Rightarrow> string \<Rightarrow> shot_entry" where
  "shot_entry_of data loc =
     (let locationPlays = location_plays data loc in
      \<lparr>totalShots = length locationPlays,
       goals = length (filter (\<lambda>p. p ''Shot Outcome'' = Some ''Goal'') locationPlays),
       avgXG = or_zero (js_div (sum_xg_rows locationPlays) (num (length locationPlays))),
       successRate =
         percentage (length (filter (\<lambda>p. p ''Shot Outcome'' = Some ''Goal'') locationPlays))
           (length locationPlays)\<rparr>)"

definition locations :: "row list \<Rightarrow> string list" where
  "locations data = filter_truthy (set_spread (map (\<lambda>r. r ''Location on Field'') data))"

definition shot_map :: "row list \<Rightarrow> (string \<Rightarrow> shot_entry option)" where
  "shot_map data =
     foldl (\<lambda>m loc. m(loc \<mapsto> shot_entry_of data loc)) Map.empty (locations data)"

record type_entry =
  pt_count :: nat
  pt_shots :: nat
  pt_goals :: nat
  pt_avgXG :: jsnum

definition type_entry_of :: "row list \<Rightarrow> string \<Rightarrow> type_entry" where
  "type_entry_of data pt =
     (let typePlays = filter (\<lambda>r. r ''Play Type'' = Some pt) data in
      \<lparr>pt_count = length typePlays,
       pt_shots = length (filter (\<lambda>p. p ''Shot Attempt'' = Some ''Yes'') typePlays),
       pt_goals = length (filter (\<lambda>p. p ''Shot Outcome'' = Some ''Goal'') typePlays),
       pt_avgXG = or_zero (js_div (sum_xg_rows typePlays) (num (length typePlays)))\<rparr>)"

definition play_types :: "row list \<Rightarrow> string list" where
  "play_types data = filter_truthy (set_spread (map (\<lambda>r. r ''Play Type'') data))"

definition play_type_map :: "row list \<Rightarrow> (string \<Rightarrow> type_entry option)" where
  "play_type_map data =
     foldl (\<lambda>m pt. m(pt \<mapsto> type_entry_of data pt)) Map.empty (play_types data)"

record team_entry =
  gamesPlayed :: nat
  tc_totalGoals :: nat
  tc_totalShots :: nat
  tc_totalXG :: jsnum
  conversionRate :: jsnum
  tc_avgXGPerShot :: jsnum

definition opponent_games :: "game list \<Rightarrow> string \<Rightarrow> game list" where
  "opponent_games gameData opp = filter (\<lambda>g. opponent g = opp) gameData"

definition team_entry_of :: "game list \<Rightarrow> string \<Rightarrow> team_entry" where
  "team_entry_of gameData opp =
     (let opponentGames = opponent_games gameData opp;
          allPlays = concat (map plays opponentGames);
          nGoals = length (filter (\<lambda>p. shotOutcome p = Some ''Goal'') allPlays);
          nShots = length (filter (\<lambda>p. shotAttempt p = Some ''Yes'') allPlays)
      in \<lparr>gamesPlayed = length opponentGames,
          tc_totalGoals = nGoals,
          tc_totalShots = nShots,
          tc_totalXG = sum_xg_plays allPlays,
          conversionRate = percentage nGoals nShots,
          tc_avgXGPerShot = per_shot (sum_xg_plays allPlays) nShots\<rparr>)"

definition team_map :: "game list \<Rightarrow> string list \<Rightarrow> (string \<Rightarrow> team_entry option)" where
  "team_map gameData opps =
     foldl (\<lambda>m opp. m(opp \<mapsto> team_entry_of gameData opp)) Map.empty opps"

record key_stats =
  totalGames :: nat
  ks_totalGoals :: nat
  ks_totalShots :: nat
  ks_totalXG :: jsnum
  overallConversionRate :: jsnum
  ks_avgXGPerShot :: jsnum

definition key_stats_of :: "row list \<Rightarrow> key_stats" where
  "key_stats_of data =
     (let nGoals = length (filter (\<lambda>r. r ''Shot Outcome'' = Some ''Goal'') data);
          nShots = length (filter (\<lambda>r. r ''Shot Attempt'' = Some ''Yes'') data)
      in \<lparr>totalGames = length (game_ids data),
          ks_totalGoals = nGoals,
          ks_totalShots = nShots,
          ks_totalXG = sum_xg_rows data,
          overallConversionRate = percentage nGoals nShots,
          ks_avgXGPerShot = per_shot (sum_xg_rows data) nShots\<rparr>)"

record result =
  goalsTimeline :: "goal_event list"
  shotMapData :: "string \<Rightarrow> shot_entry option"
  playTypeData :: "string \<Rightarrow> type_entry option"
  teamComparison :: "string \<Rightarrow> team_entry option"
  keyStats :: key_stats
  games :: "game list"
  opponents :: "string list"

text \<open>
  \<^verbatim>\<open>processComprehensiveData\<close>: the result object and the warnings printed on the way.
  No step of it throws.
\<close>

definition processComprehensiveData :: "row list \<Rightarrow> result \<times> diagnostic list" where
  "processComprehensiveData data =
     (\<lparr>goalsTimeline = goals_timeline (game_data data),
       shotMapData = shot_map data,
       playTypeData = play_type_map data,
       teamComparison = team_map (game_data data) (opponent_names data),
       keyStats = key_stats_of data,
       games = game_data data,
       opponents = opponent_names data\<rparr>,
      game_warnings data)"

text \<open>
  The endpoint after the file is read: parse, then aggregate. Its check that
  \<^verbatim>\<open>goalsTimeline\<close> and \<^verbatim>\<open>games\<close> are present cannot fail, since an array is truthy
  even when empty.
\<close>

definition getComprehensiveData :: "string \<Rightarrow> result \<times> diagnostic list" where
  "getComprehensiveData csvContent =
     (case parseCSV csvContent of
        (data, skipped) \<Rightarrow>
          (case processComprehensiveData data of
             (res, warns) \<Rightarrow> (res, skipped @ warns)))"

section \<open>Notions used in the statements\<close>




section \<open>Facts about arrays, sets and dictionaries\<close>

lemma split_on_nonempty: "split_on d s \<noteq> []"
  by (induction s) (auto split: list.splits)

lemma set_spread_acc:
  "set (foldl (\<lambda>seen x. if x \<in> set seen then seen else seen @ [x]) acc xs) = set acc \<union> set xs"
  by (induction xs arbitrary: acc) auto

lemma distinct_spread_acc:
  "distinct acc \<Longrightarrow> distinct (foldl (\<lambda>seen x. if x \<in> set seen then seen else seen @ [x]) acc xs)"
  by (induction xs arbitrary: acc) auto

lemma set_set_spread: "set (set_spread xs) = set xs"
  by (simp add: set_spread_def set_spread_acc)

lemma distinct_set_spread: "distinct (set_spread xs)"
  by (simp add: set_spread_def distinct_spread_acc)

lemma set_somes: "set (somes xs) = {x. Some x \<in> set xs}"
  by (induction xs rule: somes.induct) auto

lemma distinct_somes: "distinct xs \<Longrightarrow> distinct (somes xs)"
  by (induction xs rule: somes.induct) (auto simp: set_somes)

lemma set_filter_truthy: "set (filter_truthy xs) = {s. s \<noteq> [] \<and> Some s \<in> set xs}"
  by (auto simp: filter_truthy_def set_somes)

lemma distinct_filter_truthy: "distinct xs \<Longrightarrow> distinct (filter_truthy xs)"
  by (simp add: filter_truthy_def distinct_somes)

lemma fold_upd_apply:
  "foldl (\<lambda>m k. m(k \<mapsto> f k)) m0 ks k =
     (if k \<in> set ks then Some (f k) else m0 k)"
  by (induction ks arbitrary: m0) auto

lemma set_insert_by: "set (insert_by cmp x ys) = insert x (set ys)"
  by (induction ys) auto

lemma set_sort_by: "set (sort_by cmp xs) = set xs"
  by (induction xs) (auto simp: sort_by_def set_insert_by)



lemma length_insert_by: "length (insert_by cmp x ys) = Suc (length ys)"
  by (induction ys) auto

lemma length_sort_by: "length (sort_by cmp xs) = length xs"
  by (induction xs) (auto simp: sort_by_def length_insert_by)

lemma set_array_sort: "set (array_sort cmp xs) = set xs"
proof -
  have "x \<in> set (array_sort cmp xs) \<longleftrightarrow> x \<in> set xs" for x
    by (cases x) (auto simp: array_sort_def set_sort_by set_somes)
  then show ?thesis by blast
qed

lemma set_truthy_column:
  "set (filter_truthy (set_spread (map f data))) =
     {s. s \<noteq> [] \<and> (\<exists>r\<in>set data. f r = Some s)}"
  by (force simp: set_filter_truthy set_set_spread image_iff)

lemma distinct_truthy_column: "distinct (filter_truthy (set_spread (map f data)))"
  by (simp add: distinct_filter_truthy distinct_set_spread)

lemma distinct_filter_None: "distinct xs \<Longrightarrow> distinct (filter (\<lambda>x. x = None) xs)"
  by simp


lemma set_game_ids: "set (game_ids data) = (\<lambda>r. r ''Game ID'') ` set data"
  by (simp add: game_ids_def set_array_sort set_set_spread)




lemma set_locations:
  "set (locations data) = {s. s \<noteq> [] \<and> (\<exists>r\<in>set data. r ''Location on Field'' = Some s)}"
  by (simp add: locations_def set_truthy_column)

lemma distinct_locations: "distinct (locations data)"
  by (simp add: locations_def distinct_filter_truthy distinct_set_spread)

lemma shot_map_apply:
  "shot_map data loc = (if loc \<in> set (locations data) then Some (shot_entry_of data loc) else None)"
  by (simp add: shot_map_def fold_upd_apply)


lemma team_map_apply:
  "team_map gd opps opp = (if opp \<in> set opps then Some (team_entry_of gd opp) else None)"
  by (simp add: team_map_def fold_upd_apply)

lemma process_fields:
  "goalsTimeline (fst (processComprehensiveData data)) = goals_timeline (game_data data)"
  "shotMapData (fst (processComprehensiveData data)) = shot_map data"
  "playTypeData (fst (processComprehensiveData data)) = play_type_map data"
  "teamComparison (fst (processComprehensiveData data))
     = team_map (game_data data) (opponent_names data)"
  "keyStats (fst (processComprehensiveData data)) = key_stats_of data"
  "games (fst (processComprehensiveData data)) = game_data data"
  "opponents (fst (processComprehensiveData data)) = opponent_names data"
  "snd (processComprehensiveData data) = game_warnings data"
  by (simp_all add: processComprehensiveData_def)

section \<open>Facts about numbers\<close>

lemma percentage_eq:
  "percentage n d = (if 0 < d then Fin (rat_of_nat n / rat_of_nat d * 100) else Fin 0)"
  by (simp add: percentage_def num_def)

lemma percentage_not_NaN: "percentage n d \<noteq> NaN"
  by (simp add: percentage_eq)







lemma sum_xg_rows_map:
  "sum_xg_rows rs = foldl js_add (Fin 0) (map (\<lambda>r. or_zero (parseFloat (r ''xG''))) rs)"
  by (simp add: sum_xg_rows_def foldl_map)

lemma sum_xg_plays_map: "sum_xg_plays ps = foldl js_add (Fin 0) (map xG ps)"
  by (simp add: sum_xg_plays_def foldl_map)



lemma xG_to_play: "xG (to_play r) = or_zero (parseFloat (r ''xG''))"
  by (simp add: to_play_def)

lemma sum_xg_plays_to_play: "sum_xg_plays (map to_play rs) = sum_xg_rows rs"
  by (simp add: sum_xg_plays_map sum_xg_rows_map xG_to_play comp_def)

section \<open>Facts about games\<close>

lemma materialize_Inr:
  assumes "materialize data gid = Inr g"
  shows "gameId g = gid"
    and "plays g = map to_play (filter (\<lambda>r. r ''Game ID'' = gid) data)"
    and "\<exists>first rest. filter (\<lambda>r. r ''Game ID'' = gid) data = first # rest
           \<and> first ''Opponent'' = Some (opponent g) \<and> first ''Date'' = Some (date g)
           \<and> first ''Season'' = Some (season g)
           \<and> opponent g \<noteq> [] \<and> date g \<noteq> [] \<and> season g \<noteq> []"
  using assms
  by (auto simp: materialize_def Let_def truthy_def split: list.splits if_splits option.splits)

lemma materialize_Inl:
  assumes "materialize data gid = Inl w"
  shows "(filter (\<lambda>r. r ''Game ID'' = gid) data = [] \<and> w = NoPlaysFound gid)
       \<or> (\<exists>first rest. filter (\<lambda>r. r ''Game ID'' = gid) data = first # rest
             \<and> \<not> (truthy (first ''Opponent'') \<and> truthy (first ''Date'') \<and> truthy (first ''Season''))
             \<and> w = MissingFields gid)"
  using assms
  by (auto simp: materialize_def Let_def truthy_def split: list.splits if_splits option.splits)


lemma set_rights: "set (rights xs) = {b. Inr b \<in> set xs}"
  by (induction xs rule: rights.induct) auto

lemma set_lefts: "set (lefts xs) = {a. Inl a \<in> set xs}"
  by (induction xs rule: lefts.induct) auto

lemma game_data_mem:
  "g \<in> set (game_data data) \<longleftrightarrow> (\<exists>gid\<in>set (game_ids data). materialize data gid = Inr g)"
  by (force simp: game_data_def set_rights image_iff)



section \<open>The Shot Map\<close>





text \<open>
  Claim C2: every row counted in an entry of the Shot Map is an attempted shot.
  totalShots, goals and avgXG of the entry of a location are computed from the rows of
  that location whose Shot Attempt is Yes, and the entry is the one computed from the
  attempted rows alone: a row without an attempt contributes to no count.
\<close>

theorem shot_map_counts_only_attempts:
  assumes "shotMapData (fst (processComprehensiveData data)) loc = Some e"
  shows "totalShots e = length (filter (\<lambda>r. r ''Location on Field'' = Some loc
                                   \<and> r ''Shot Attempt'' = Some ''Yes'') data)
       \<and> goals e = length (filter (\<lambda>r. r ''Location on Field'' = Some loc
                                   \<and> r ''Shot Attempt'' = Some ''Yes''
                                   \<and> r ''Shot Outcome'' = Some ''Goal'') data)
       \<and> avgXG e = or_zero (js_div
           (sum_xg_rows (filter (\<lambda>r. r ''Location on Field'' = Some loc
                                   \<and> r ''Shot Attempt'' = Some ''Yes'') data))
           (num (totalShots e)))
       \<and> e = shot_entry_of (filter (\<lambda>r. r ''Shot Attempt'' = Some ''Yes'') data) loc"
proof -
  from assms have e: "e = shot_entry_of data loc"
    by (auto simp: process_fields shot_map_apply split: if_splits)
  have same: "location_plays (filter (\<lambda>r. r ''Shot Attempt'' = Some ''Yes'') data) loc
                = location_plays data loc"
    by (simp add: location_plays_def conj_commute cong: conj_cong)
  have "shot_entry_of (filter (\<lambda>r. r ''Shot Attempt'' = Some ''Yes'') data) loc
          = shot_entry_of data loc"
    by (simp add: shot_entry_of_def same)
  then show ?thesis
    by (simp add: e shot_entry_of_def location_plays_def Let_def conj_ac cong: conj_cong)
qed

theorem shot_map_counts_only_attempts_witness:
  "shotMapData (fst (processComprehensiveData
        [[''Location on Field'' \<mapsto> ''Box'', ''Shot Attempt'' \<mapsto> ''Yes'',
          ''Shot Outcome'' \<mapsto> ''Goal'', ''xG'' \<mapsto> ''0.5''],
         [''Location on Field'' \<mapsto> ''Box'', ''Shot Attempt'' \<mapsto> ''No'',
          ''Shot Outcome'' \<mapsto> ''Goal'', ''xG'' \<mapsto> ''0.9'']])) ''Box''
     = Some \<lparr>totalShots = 1, goals = 1, avgXG = Fin (1 / 2), successRate = Fin 100\<rparr>
   \<and> \<lparr>totalShots = 1, goals = 1, avgXG = Fin (1 / 2), successRate = Fin 100\<rparr>
     = shot_entry_of (filter (\<lambda>r. r ''Shot Attempt'' = Some ''Yes'')
        [[''Location on Field'' \<mapsto> ''Box'', ''Shot Attempt'' \<mapsto> ''Yes'',
          ''Shot Outcome'' \<mapsto> ''Goal'', ''xG'' \<mapsto> ''0.5''],
         [''Location on Field'' \<mapsto> ''Box'', ''Shot Attempt'' \<mapsto> ''No'',
          ''Shot Outcome'' \<mapsto> ''Goal'', ''xG'' \<mapsto> ''0.9'']]) ''Box''"
proof -
  have h: "shotMapData (fst (processComprehensiveData
        [[''Location on Field'' \<mapsto> ''Box'', ''Shot Attempt'' \<mapsto> ''Yes'',
          ''Shot Outcome'' \<mapsto> ''Goal'', ''xG'' \<mapsto> ''0.5''],
         [''Location on Field'' \<mapsto> ''Box'', ''Shot Attempt'' \<mapsto> ''No'',
          ''Shot Outcome'' \<mapsto> ''Goal'', ''xG'' \<mapsto> ''0.9'']])) ''Box''
     = Some \<lparr>totalShots = 1, goals = 1, avgXG = Fin (1 / 2), successRate = Fin 100\<rparr>"
    by (simp add: process_fields shot_map_apply set_locations shot_entry_of_def
        location_plays_def percentage_eq sum_xg_rows_def num_def or_zero_def
        parseFloat_def str_decimal_literal_def trim_start_def is_ws_def take_sign_def
        is_digit_def digit_val_def digits_value_def take_exponent_def scale10_def)
  from shot_map_counts_only_attempts [OF h] h show ?thesis by blast
qed

section \<open>Rates and averages\<close>





section \<open>The loader skips ragged rows\<close>

lemma parse_loop_eq:
  "parse_loop hs i ls data warns =
     (data @ map (\<lambda>l. make_row hs (split_on CHR '','' l))
               (filter (\<lambda>l. trim l \<noteq> [] \<and> length (split_on CHR '','' l) = length hs) ls),
      warns @ map (\<lambda>(k, l). MalformedRow (k + 1) l)
               (filter (\<lambda>(k, l). trim l \<noteq> [] \<and> length (split_on CHR '','' l) \<noteq> length hs)
                  (enumerate i ls)))"
  by (induction ls arbitrary: i data warns) (simp_all add: Let_def)

lemma parseCSV_eq:
  assumes "split_on CHR 0x0A txt = header # rest"
  shows "parseCSV txt =
     (map (\<lambda>l. make_row (split_on CHR '','' header) (split_on CHR '','' l))
        (filter (\<lambda>l. trim l \<noteq> []
                   \<and> length (split_on CHR '','' l) = length (split_on CHR '','' header)) rest),
      map (\<lambda>(k, l). MalformedRow (k + 1) l)
        (filter (\<lambda>(k, l). trim l \<noteq> []
                   \<and> length (split_on CHR '','' l) \<noteq> length (split_on CHR '','' header))
           (enumerate 1 rest)))"
  by (simp add: parseCSV_def assms parse_loop_eq)

text \<open>
  Claim C4: with the first line as header, the records are exactly those of the
  non-blank later lines whose number of comma-separated values equals the number of
  header columns, in order; every non-blank later line with another number of values is
  skipped with a warning that carries its line number and its text, and yields no
  record, so that the aggregation sees the well-formed lines only. The loader is a
  total function of the text: it cannot abort, and the same text gives the same
  skipped lines.
\<close>

theorem parseCSV_skips_ragged_rows:
  assumes "split_on CHR 0x0A txt = header # rest" and "hs = split_on CHR '','' header"
  shows "fst (parseCSV txt) =
           map (\<lambda>l. make_row hs (split_on CHR '','' l))
             (filter (\<lambda>l. trim l \<noteq> [] \<and> length (split_on CHR '','' l) = length hs) rest)
       \<and> snd (parseCSV txt) =
           map (\<lambda>(i, l). MalformedRow (i + 1) l)
             (filter (\<lambda>(i, l). trim l \<noteq> [] \<and> length (split_on CHR '','' l) \<noteq> length hs)
                (enumerate 1 rest))
       \<and> (\<forall>i. 1 \<le> i \<and> i < length (header # rest) \<and> trim ((header # rest) ! i) \<noteq> []
                \<and> length (split_on CHR '','' ((header # rest) ! i)) \<noteq> length hs
              \<longrightarrow> MalformedRow (i + 1) ((header # rest) ! i) \<in> set (snd (parseCSV txt)))
       \<and> fst (getComprehensiveData txt) =
           fst (processComprehensiveData
             (map (\<lambda>l. make_row hs (split_on CHR '','' l))
                (filter (\<lambda>l. trim l \<noteq> [] \<and> length (split_on CHR '','' l) = length hs) rest)))"
proof -
  note eq = parseCSV_eq [OF assms(1), folded assms(2)]
  have diag: "MalformedRow (i + 1) ((header # rest) ! i) \<in> set (snd (parseCSV txt))"
    if "1 \<le> i" "i < length (header # rest)" "trim ((header # rest) ! i) \<noteq> []"
      "length (split_on CHR '','' ((header # rest) ! i)) \<noteq> length hs" for i
  proof -
    from that(1,2) have "(i, (header # rest) ! i) \<in> set (enumerate 1 rest)"
      by (cases i) (auto simp: in_set_enumerate_eq)
    with that(3,4) show ?thesis
      by (force simp: eq)
  qed
  have down: "fst (getComprehensiveData txt) = fst (processComprehensiveData (fst (parseCSV txt)))"
    by (simp add: getComprehensiveData_def split: prod.splits)
  have d: "fst (parseCSV txt) =
           map (\<lambda>l. make_row hs (split_on CHR '','' l))
             (filter (\<lambda>l. trim l \<noteq> [] \<and> length (split_on CHR '','' l) = length hs) rest)"
    by (simp add: eq)
  have w: "snd (parseCSV txt) =
           map (\<lambda>(i, l). MalformedRow (i + 1) l)
             (filter (\<lambda>(i, l). trim l \<noteq> [] \<and> length (split_on CHR '','' l) \<noteq> length hs)
                (enumerate 1 rest))"
    by (simp add: eq)
  from d w diag down [unfolded d] show ?thesis
    by blast
qed

theorem parseCSV_skips_ragged_rows_witness:
  "split_on CHR 0x0A ''A,B\<newline>1,2\<newline>3\<newline>\<newline>4,5,6'' = ''A,B'' # [''1,2'', ''3'', '''', ''4,5,6'']
   \<and> snd (parseCSV ''A,B\<newline>1,2\<newline>3\<newline>\<newline>4,5,6'') = [MalformedRow 3 ''3'', MalformedRow 5 ''4,5,6'']
   \<and> length (fst (parseCSV ''A,B\<newline>1,2\<newline>3\<newline>\<newline>4,5,6'')) = 1"
proof -
  have h: "split_on CHR 0x0A ''A,B\<newline>1,2\<newline>3\<newline>\<newline>4,5,6'' = ''A,B'' # [''1,2'', ''3'', '''', ''4,5,6'']"
    by simp
  from parseCSV_skips_ragged_rows [OF h refl] h show ?thesis
    by (simp add: enumerate_eq_zip trim_def is_ws_def upt_rec)
qed

section \<open>Header-only input\<close>

lemma process_empty:
  "processComprehensiveData [] =
     (\<lparr>goalsTimeline = [], shotMapData = Map.empty, playTypeData = Map.empty,
       teamComparison = Map.empty,
       keyStats = \<lparr>totalGames = 0, ks_totalGoals = 0, ks_totalShots = 0, ks_totalXG = Fin 0,
                   overallConversionRate = Fin 0, ks_avgXGPerShot = Fin 0\<rparr>,
       games = [], opponents = []\<rparr>, [])"
  by (simp add: processComprehensiveData_def goals_timeline_def game_data_def game_ids_def
      set_spread_def array_sort_def sort_by_def shot_map_def locations_def filter_truthy_def
      play_type_map_def play_types_def team_map_def opponent_names_def key_stats_of_def
      sum_xg_rows_def percentage_def per_shot_def game_warnings_def)

text \<open>
  Claim C7: for a text with a header line and no data row (every later line, if any, is
  blank), the endpoint returns the result with all seven fields: goalsTimeline, games
  and opponents are empty sequences, shotMapData, playTypeData and teamComparison are
  empty mappings, every count and rate of keyStats is 0, and no warning is printed. The
  function is total, so no fault is raised.
\<close>

theorem header_only_input:
  assumes "split_on CHR 0x0A txt = header # rest" and "\<forall>l\<in>set rest. trim l = []"
  shows "getComprehensiveData txt =
     (\<lparr>goalsTimeline = [], shotMapData = Map.empty, playTypeData = Map.empty,
       teamComparison = Map.empty,
       keyStats = \<lparr>totalGames = 0, ks_totalGoals = 0, ks_totalShots = 0, ks_totalXG = Fin 0,
                   overallConversionRate = Fin 0, ks_avgXGPerShot = Fin 0\<rparr>,
       games = [], opponents = []\<rparr>, [])"
proof -
  from assms(2) have "filter (\<lambda>l. trim l \<noteq> [] \<and> P l) rest = []" for P
    by (simp add: filter_empty_conv)
  moreover from assms(2) have "filter (\<lambda>(k, l). trim l \<noteq> [] \<and> Q l) (enumerate n rest) = []" for Q n
    by (auto simp: filter_empty_conv in_set_enumerate_eq)
  ultimately have "parseCSV txt = ([], [])"
    by (simp add: parseCSV_eq [OF assms(1)])
  then show ?thesis
    by (simp add: getComprehensiveData_def process_empty)
qed

theorem header_only_input_witness:
  "split_on CHR 0x0A ''Game ID,Opponent,Date\<newline>  \<newline>'' = ''Game ID,Opponent,Date'' # [''  '', '''']
   \<and> trim ''  '' = [] \<and> trim '''' = []
   \<and> totalGames (keyStats (fst (getComprehensiveData ''Game ID,Opponent,Date\<newline>  \<newline>''))) = 0
   \<and> games (fst (getComprehensiveData ''Game ID,Opponent,Date\<newline>  \<newline>'')) = []"
proof -
  have h1: "split_on CHR 0x0A ''Game ID,Opponent,Date\<newline>  \<newline>'' = ''Game ID,Opponent,Date'' # [''  '', '''']"
    by simp
  have h2: "\<forall>l\<in>set [''  '', '''']. trim l = []"
    by (simp add: trim_def is_ws_def)
  from header_only_input [OF h1 h2] h1 h2 show ?thesis
    by simp
qed

section \<open>The order of the games\<close>










section \<open>Materialization of games\<close>




lemma game_warnings_mem:
  "w \<in> set (game_warnings data) \<longleftrightarrow> (\<exists>gid\<in>set (game_ids data). materialize data gid = Inl w)"
  by (force simp: game_warnings_def set_lefts image_iff)

lemma rows_of_known_id:
  "gid \<in> set (game_ids data) \<Longrightarrow> filter (\<lambda>r. r ''Game ID'' = gid) data \<noteq> []"
  by (auto simp: set_game_ids filter_empty_conv)




section \<open>Games without plays, opponents without games\<close>

lemma game_has_plays:
  assumes "g \<in> set (game_data data)"
  shows "plays g \<noteq> []" and "\<exists>r\<in>set data. r ''Game ID'' = gameId g"
proof -
  from assms obtain gid where g: "materialize data gid = Inr g"
    by (auto simp: game_data_mem)
  from materialize_Inr [OF g] show "plays g \<noteq> []"
    by auto
  from materialize_Inr [OF g] obtain first rest where
    "filter (\<lambda>r. r ''Game ID'' = gameId g) data = first # rest"
    by auto
  then have "first \<in> set (filter (\<lambda>r. r ''Game ID'' = gameId g) data)"
    by simp
  then show "\<exists>r\<in>set data. r ''Game ID'' = gameId g"
    by auto
qed

lemma timeline_entry_game:
  "e \<in> set (goals_timeline gd) \<Longrightarrow> \<exists>g\<in>set gd. goal_gameId e = gameId g"
  by (auto simp: goals_timeline_def goals_of_game_def)

lemma no_plays_branch_unreachable:
  "gid \<in> set (game_ids data) \<Longrightarrow> materialize data gid \<noteq> Inl (NoPlaysFound gid)"
  using rows_of_known_id [of gid data]
  by (auto simp: materialize_def Let_def split: list.splits if_splits option.splits)

text \<open>
  Claim C9: every game of the result has at least one play and an identifier that some
  record carries; every entry of goalsTimeline belongs to such a game; gamesPlayed of a
  Team Comparison entry counts games with plays only. The branch of the materialization
  that skips a game with no plays is never taken for an identifier extracted from the
  records, and its warning is never printed.
\<close>

theorem no_game_without_plays:
  "(\<forall>g\<in>set (games (fst (processComprehensiveData data))).
       plays g \<noteq> [] \<and> (\<exists>r\<in>set data. r ''Game ID'' = gameId g))
   \<and> (\<forall>e\<in>set (goalsTimeline (fst (processComprehensiveData data))).
         \<exists>g\<in>set (games (fst (processComprehensiveData data))).
           goal_gameId e = gameId g \<and> plays g \<noteq> [])
   \<and> (\<forall>opp e. teamComparison (fst (processComprehensiveData data)) opp = Some e \<longrightarrow>
         gamesPlayed e = length (filter (\<lambda>g. opponent g = opp \<and> plays g \<noteq> [])
                                   (games (fst (processComprehensiveData data)))))
   \<and> (\<forall>gid\<in>set (game_ids data). materialize data gid \<noteq> Inl (NoPlaysFound gid))
   \<and> (\<forall>gid. NoPlaysFound gid \<notin> set (snd (processComprehensiveData data)))"
proof -
  have a: "\<forall>g\<in>set (games (fst (processComprehensiveData data))).
       plays g \<noteq> [] \<and> (\<exists>r\<in>set data. r ''Game ID'' = gameId g)"
    using game_has_plays by (simp add: process_fields)
  have b: "\<forall>e\<in>set (goalsTimeline (fst (processComprehensiveData data))).
         \<exists>g\<in>set (games (fst (processComprehensiveData data))).
           goal_gameId e = gameId g \<and> plays g \<noteq> []"
    unfolding process_fields using timeline_entry_game game_has_plays(1) by blast
  have c: "gamesPlayed e = length (filter (\<lambda>g. opponent g = opp \<and> plays g \<noteq> [])
                                   (games (fst (processComprehensiveData data))))"
    if "teamComparison (fst (processComprehensiveData data)) opp = Some e" for opp e
  proof -
    from that have e: "e = team_entry_of (game_data data) opp"
      by (auto simp: process_fields team_map_apply split: if_splits)
    have "filter (\<lambda>g. opponent g = opp \<and> plays g \<noteq> []) (game_data data)
            = filter (\<lambda>g. opponent g = opp) (game_data data)"
      using game_has_plays(1) by (auto intro: filter_cong)
    then show ?thesis
      by (simp add: e team_entry_of_def Let_def opponent_games_def process_fields)
  qed
  have d: "\<forall>gid\<in>set (game_ids data). materialize data gid \<noteq> Inl (NoPlaysFound gid)"
    using no_plays_branch_unreachable by blast
  have "NoPlaysFound gid \<notin> set (snd (processComprehensiveData data))" for gid
  proof
    assume "NoPlaysFound gid \<in> set (snd (processComprehensiveData data))"
    then obtain i where i: "i \<in> set (game_ids data)" "materialize data i = Inl (NoPlaysFound gid)"
      by (auto simp: process_fields game_warnings_mem)
    from materialize_Inl [OF i(2)] have "gid = i" by auto
    with i d show False by blast
  qed
  with a b c d show ?thesis by blast
qed

theorem no_game_without_plays_witness:
  "materialize [[''Game ID'' \<mapsto> ''1'', ''Opponent'' \<mapsto> ''A'', ''Date'' \<mapsto> ''d'', ''Season'' \<mapsto> ''s'']]
      (Some ''1'') \<noteq> Inl (NoPlaysFound (Some ''1''))
   \<and> NoPlaysFound (Some ''1'') \<notin> set (snd (processComprehensiveData
        [[''Game ID'' \<mapsto> ''1'', ''Opponent'' \<mapsto> ''A'', ''Date'' \<mapsto> ''d'', ''Season'' \<mapsto> ''s'']]))"
proof -
  have "Some ''1'' \<in> set (game_ids
      [[''Game ID'' \<mapsto> ''1'', ''Opponent'' \<mapsto> ''A'', ''Date'' \<mapsto> ''d'', ''Season'' \<mapsto> ''s'']])"
    by (simp add: set_game_ids)
  with no_game_without_plays
    [of "[[''Game ID'' \<mapsto> ''1'', ''Opponent'' \<mapsto> ''A'', ''Date'' \<mapsto> ''d'', ''Season'' \<mapsto> ''s'']]"]
  show ?thesis by blast
qed



section \<open>Goals per opponent and in total\<close>












end
